theory Spec2Isabelle
  imports Complex_Main "HOL-Library.Log_Nat"
begin

section \<open>JavaScript arrays\<close>

text \<open>
  Reading \<^verbatim>\<open>xs[i]\<close> outside the array yields \<^verbatim>\<open>undefined\<close>; it never raises.
  \<open>None\<close> stands for \<^verbatim>\<open>undefined\<close> and \<^verbatim>\<open>null\<close> throughout.
\<close>

definition at_index :: "'a list \<Rightarrow> int \<Rightarrow> 'a option" where
  "at_index xs i = (if 0 \<le> i \<and> i < int (length xs) then Some (xs ! nat i) else None)"

text \<open>
  \<^verbatim>\<open>Array.prototype.findIndex\<close>: the position of the first element that satisfies the
  predicate, scanning from position 0, and \<open>-1\<close> when there is none.
\<close>

fun findIndex_from :: "('a \<Rightarrow> bool) \<Rightarrow> 'a list \<Rightarrow> int \<Rightarrow> int" where
  "findIndex_from p [] k = - 1"
| "findIndex_from p (x # xs) k = (if p x then k else findIndex_from p xs (k + 1))"

definition findIndex :: "('a \<Rightarrow> bool) \<Rightarrow> 'a list \<Rightarrow> int" where
  "findIndex p xs = findIndex_from p xs 0"

section \<open>JavaScript numbers\<close>

text \<open>
  A JavaScript number is a binary64 value. A finite one is \<open>m * 2 ^ e\<close> with an integer
  \<open>m\<close> of at most 53 bits; \<open>dval\<close> is the number it stands for. A product and a sum are
  the exact result rounded to 53 significant bits, a tie going to the even neighbour.
  The exponent is left unbounded: screen widths and list positions are far from the
  overflow threshold and from the subnormal range.
\<close>

datatype double = Double (mant: int) (expo: int)

definition dval :: "double \<Rightarrow> real" where
  "dval d =
     (if 0 \<le> expo d then of_int (mant d) * 2 ^ nat (expo d)
      else of_int (mant d) / 2 ^ nat (- expo d))"

definition round53 :: "int \<Rightarrow> int \<Rightarrow> double" where
  "round53 m e =
     (let k = bitlen \<bar>m\<bar> - 53 in
      if k \<le> 0 then Double m e
      else
        let q = \<bar>m\<bar> div 2 ^ nat k;
            r = \<bar>m\<bar> mod 2 ^ nat k;
            h = 2 ^ nat (k - 1)
        in Double (sgn m * (if h < r \<or> (r = h \<and> odd q) then q + 1 else q)) (e + k))"

definition dmul :: "double \<Rightarrow> double \<Rightarrow> double" where
  "dmul a b = round53 (mant a * mant b) (expo a + expo b)"

definition dadd :: "double \<Rightarrow> double \<Rightarrow> double" where
  "dadd a b =
     (let e = min (expo a) (expo b)
      in round53 (mant a * 2 ^ nat (expo a - e) + mant b * 2 ^ nat (expo b - e)) e)"

text \<open>A list position or a length, as the number the code multiplies with.\<close>

definition double_of_nat :: "nat \<Rightarrow> double" where
  "double_of_nat n = round53 (int n) 0"

section \<open>Observable effects\<close>

text \<open>
  A handler of the component returns the list of calls it makes on its collaborators, in
  order. A callback supplied by the caller and a mounted component instance (what a ref
  points to) are named by a number.
\<close>

type_synonym callback = nat
type_synonym handle = nat

datatype effect =
    Call_onComplete callback
  | Call_onUserStoryIndexChange callback int
  | FlatList_scrollToIndex handle int bool
  | Story_pause handle bool
  | Story_handleLongPress handle bool

section \<open>Props\<close>

text \<open>
  The enum \<^verbatim>\<open>TransitionMode\<close> is declared in \<^verbatim>\<open>./types\<close>. The component names its
  members \<open>Cube\<close> and \<open>Scale\<close>; \<open>OtherMode n\<close> is any further member.
\<close>

datatype TransitionMode = Cube | Scale | OtherMode nat

text \<open>One user's story group, the \<^verbatim>\<open>item\<close> of a list row.\<close>

record 'm StoriesType =
  item_id :: nat
  item_username :: string
  item_title :: string
  item_profile :: "string option"
  item_stories :: "'m list"

text \<open>
  The rest object \<^verbatim>\<open>...props\<close>: whatever the caller passed beyond the props the two
  components destructure. Its fields here are the two the list item reads
  (\<^verbatim>\<open>transitionMode\<close>, \<^verbatim>\<open>renderIndicatorComponent\<close>) and the ones that meet a prop
  written before \<^verbatim>\<open>{...props}\<close> on \<^verbatim>\<open>StoryContainer\<close>. A field is \<open>None\<close> when the
  caller did not pass that key. \<^verbatim>\<open>renderIndicatorComponent\<close> is a function: \<open>Some r\<close> is
  a function that returns \<open>r\<close>, itself \<open>None\<close> when it returns \<^verbatim>\<open>null\<close>. \<open>'e\<close> is the
  type of elements the caller's render functions return.
\<close>

record ('m, 'e) RestProps =
  transitionMode :: "TransitionMode option"
  renderIndicatorComponent :: "'e option option"
  userStories :: "'m StoriesType option"
  progressIndex :: "int option"
  maxVideoDuration :: "real option"
  renderHeaderComponent :: "'e option"
  renderFooterComponent :: "'e option"

datatype 'e HeaderComponent =
    ProfileHeader string string string "effect list"
  | CustomHeader 'e

datatype 'e FooterComponent = Footer | CustomFooter 'e

datatype 'e IndicatorComponent = Indicator | CustomIndicator 'e

text \<open>
  The props a list item hands to \<^verbatim>\<open>StoryContainer\<close>. \<^verbatim>\<open>nextStory\<close> and
  \<^verbatim>\<open>previousStory\<close> are closures: they read the list ref when they are called, so each
  is a function of what the ref holds then.
\<close>

record ('m, 'e) StoryContainerProps =
  sc_visible :: bool
  sc_userStories :: "'m StoriesType"
  sc_nextStory :: "handle option \<Rightarrow> effect list"
  sc_previousStory :: "handle option \<Rightarrow> effect list"
  sc_stories :: "'m list"
  sc_progressIndex :: "int option"
  sc_maxVideoDuration :: real
  sc_renderHeaderComponent :: "'e HeaderComponent"
  sc_renderFooterComponent :: "'e FooterComponent"
  sc_transitionMode :: "TransitionMode option"
  sc_renderIndicatorComponent :: "'e option option"
  sc_index :: nat
  sc_userStoryIndex :: int

text \<open>The props \<^verbatim>\<open>MultiStoryListItem\<close> destructures, and the rest.\<close>

record ('m, 'e) MultiStoryListItemProps =
  li_item :: "'m StoriesType"
  li_index :: nat
  li_scrollX :: real
  li_nextStory :: "handle option \<Rightarrow> effect list"
  li_previousStory :: "handle option \<Rightarrow> effect list"
  li_storyIndex :: int
  li_onComplete :: "callback option"
  li_viewedStories :: "bool list list option"
  li_isLoading :: bool
  li_props :: "('m, 'e) RestProps"

text \<open>
  \<^verbatim>\<open>./utils/StoryTransitions\<close> and \<^verbatim>\<open>Metrics\<close> of \<^verbatim>\<open>../../theme\<close> are imported
  by the component; they are parameters here. \<open>'y\<close> is the type of an animated style.
\<close>

record 'y StoryTransitions =
  cubeTransition :: "nat \<Rightarrow> real \<Rightarrow> 'y"
  scaleTransition :: "nat \<Rightarrow> real \<Rightarrow> 'y"
  defaultTransition :: 'y

record Metrics =
  screenWidth :: double
  isIOS :: bool

section \<open>MultiStoryListItem\<close>

definition storyInitialIndex :: "('m, 'e) MultiStoryListItemProps \<Rightarrow> int option" where
  "storyInitialIndex p =
     (case li_viewedStories p of
        None \<Rightarrow> None
      | Some vs \<Rightarrow>
          (case at_index vs (int (li_index p)) of
             None \<Rightarrow> None
           | Some a \<Rightarrow> Some (findIndex (\<lambda>val. \<not> val) a)))"

text \<open>
  The handle a list item exposes through \<^verbatim>\<open>useImperativeHandle\<close>: three closures over
  the item's \<^verbatim>\<open>storyRef\<close>, each a no-op while the ref is empty.
\<close>

record ListItemRef =
  storyRef :: "handle option"

definition onScrollBegin :: "ListItemRef \<Rightarrow> effect list" where
  "onScrollBegin r = (case storyRef r of None \<Rightarrow> [] | Some s \<Rightarrow> [Story_pause s True])"

definition onScrollEnd :: "ListItemRef \<Rightarrow> effect list" where
  "onScrollEnd r = (case storyRef r of None \<Rightarrow> [] | Some s \<Rightarrow> [Story_pause s False])"

definition ListItem_handleLongPress :: "ListItemRef \<Rightarrow> bool \<Rightarrow> effect list" where
  "ListItem_handleLongPress r visibility =
     (case storyRef r of None \<Rightarrow> [] | Some s \<Rightarrow> [Story_handleLongPress s visibility])"

definition animationStyle ::
  "'y StoryTransitions \<Rightarrow> ('m, 'e) MultiStoryListItemProps \<Rightarrow> 'y" where
  "animationStyle T p =
     (case transitionMode (li_props p) of
        Some Cube \<Rightarrow> cubeTransition T (li_index p) (li_scrollX p)
      | Some Scale \<Rightarrow> scaleTransition T (li_index p) (li_scrollX p)
      | _ \<Rightarrow> defaultTransition T)"

text \<open>
  The literal \<^verbatim>\<open>progressIndex={storyInitialIndex < 0 ? 0 : storyInitialIndex}\<close>;
  \<^verbatim>\<open>undefined < 0\<close> is false, so an undefined index stays undefined.
\<close>

definition progressIndex_literal :: "('m, 'e) MultiStoryListItemProps \<Rightarrow> int option" where
  "progressIndex_literal p =
     (case storyInitialIndex p of
        None \<Rightarrow> None
      | Some k \<Rightarrow> Some (if k < 0 then 0 else k))"

definition onClosePress :: "callback option \<Rightarrow> effect list" where
  "onClosePress oc = (case oc of None \<Rightarrow> [] | Some f \<Rightarrow> [Call_onComplete f])"

text \<open>
  The props of the \<^verbatim>\<open>StoryContainer\<close> element, in the order the JSX writes them: the
  literal props, then \<^verbatim>\<open>{...props}\<close>, which replaces every literal prop whose key it
  carries, then \<^verbatim>\<open>index\<close> and \<^verbatim>\<open>userStoryIndex\<close>, which nothing replaces.
\<close>

definition storyContainerProps ::
  "('m, 'e) MultiStoryListItemProps \<Rightarrow> ('m, 'e) StoryContainerProps" where
  "storyContainerProps p =
     \<lparr> sc_visible = True,
       sc_userStories =
         (case userStories (li_props p) of None \<Rightarrow> li_item p | Some u \<Rightarrow> u),
       sc_nextStory = li_nextStory p,
       sc_previousStory = li_previousStory p,
       sc_stories = item_stories (li_item p),
       sc_progressIndex =
         (case progressIndex (li_props p) of
            None \<Rightarrow> progressIndex_literal p
          | Some k \<Rightarrow> Some k),
       sc_maxVideoDuration =
         (case maxVideoDuration (li_props p) of None \<Rightarrow> 15 | Some d \<Rightarrow> d),
       sc_renderHeaderComponent =
         (case renderHeaderComponent (li_props p) of
            None \<Rightarrow>
              ProfileHeader
                (case item_profile (li_item p) of None \<Rightarrow> [] | Some uri \<Rightarrow> uri)
                (item_username (li_item p))
                (item_title (li_item p))
                (onClosePress (li_onComplete p))
          | Some h \<Rightarrow> CustomHeader h),
       sc_renderFooterComponent =
         (case renderFooterComponent (li_props p) of
            None \<Rightarrow> Footer
          | Some f \<Rightarrow> CustomFooter f),
       sc_transitionMode = transitionMode (li_props p),
       sc_renderIndicatorComponent = renderIndicatorComponent (li_props p),
       sc_index = li_index p,
       sc_userStoryIndex = li_storyIndex p \<rparr>"

text \<open>\<^verbatim>\<open>props?.renderIndicatorComponent?.() ?? <Indicator />\<close>\<close>

definition indicatorComponent :: "('m, 'e) RestProps \<Rightarrow> 'e IndicatorComponent" where
  "indicatorComponent r =
     (case renderIndicatorComponent r of
        Some (Some e) \<Rightarrow> CustomIndicator e
      | _ \<Rightarrow> Indicator)"

text \<open>What a list item renders inside its \<^verbatim>\<open>Animated.View\<close>.\<close>

datatype ('m, 'e, 'y) ItemView =
    StoryContainerView 'y "('m, 'e) StoryContainerProps"
  | IndicatorView "'e IndicatorComponent"

definition MultiStoryListItem ::
  "'y StoryTransitions \<Rightarrow> ('m, 'e) MultiStoryListItemProps \<Rightarrow> ('m, 'e, 'y) ItemView" where
  "MultiStoryListItem T p =
     (if li_storyIndex p = int (li_index p) \<or> li_isLoading p
      then StoryContainerView (animationStyle T p) (storyContainerProps p)
      else IndicatorView (indicatorComponent (li_props p)))"

fun rendersStoryContainer :: "('m, 'e, 'y) ItemView \<Rightarrow> bool" where
  "rendersStoryContainer (StoryContainerView st sp) = True"
| "rendersStoryContainer (IndicatorView i) = False"

section \<open>MultiStoryContainer\<close>

text \<open>
  The container's own rest object \<^verbatim>\<open>...props\<close> is spread on every row after the
  props \<^verbatim>\<open>renderItem\<close> names, so a key of one of those names replaces the row's value.
  \<^verbatim>\<open>onComplete\<close> and \<^verbatim>\<open>viewedStories\<close> cannot be among them: the container
  destructures both. These keys are kept apart from the others, which reach the row's
  own rest object unchanged; a field is \<open>None\<close> when the caller did not pass that key.
\<close>

record 'm RowProps =
  rp_item :: "'m StoriesType option"
  rp_index :: "nat option"
  rp_nextStory :: "(handle option \<Rightarrow> effect list) option"
  rp_previousStory :: "(handle option \<Rightarrow> effect list) option"
  rp_storyIndex :: "int option"
  rp_scrollX :: "real option"
  rp_isLoading :: "bool option"

text \<open>
  One instance of the component: its props (the rest object in the two parts
  \<open>rowProps\<close> and \<open>props\<close>), its two refs, its \<^verbatim>\<open>isLoading\<close> state, the
  dependencies the index effect ran with last (\<open>None\<close> before the first commit), and the
  two values of \<^verbatim>\<open>useMultiStoryContainer\<close> (a hook outside these files) that the
  component computes with: the current user-story index and the scroll offset.
\<close>

record ('m, 'e) Container =
  stories :: "'m StoriesType list"
  visible :: "bool option"
  onComplete :: "callback option"
  onUserStoryIndexChange :: "callback option"
  viewedStories :: "bool list list option"
  rowProps :: "'m RowProps"
  props :: "('m, 'e) RestProps"
  flatListRef :: "handle option"
  itemsRef :: "ListItemRef option list"
  isLoading :: bool
  effectDeps :: "(callback option \<times> int) option"
  storyIndex :: int
  scrollX :: real

text \<open>
  A handler takes the instance and returns it, updated, with the calls it made.
\<close>

definition nextStory :: "('m, 'e) Container \<Rightarrow> ('m, 'e) Container \<times> effect list" where
  "nextStory c =
     (if storyIndex c + 1 = int (length (stories c))
      then (c, case onComplete c of None \<Rightarrow> [] | Some f \<Rightarrow> [Call_onComplete f])
      else if storyIndex c \<ge> int (length (stories c)) - 1
      then (c, [])
      else (c, case flatListRef c of
                 None \<Rightarrow> []
               | Some l \<Rightarrow> [FlatList_scrollToIndex l (storyIndex c + 1) True]))"

definition previousStory :: "('m, 'e) Container \<Rightarrow> ('m, 'e) Container \<times> effect list" where
  "previousStory c =
     (if storyIndex c = 0
      then (c, [])
      else (c, case flatListRef c of
                 None \<Rightarrow> []
               | Some l \<Rightarrow> [FlatList_scrollToIndex l (storyIndex c - 1) True]))"

text \<open>
  The three closures the container hands to the hook and to the list. Each reads
  \<^verbatim>\<open>itemsRef.current[storyIndex]\<close> and does nothing when no handle is registered there.
\<close>

definition onScrollBeginDrag :: "('m, 'e) Container \<Rightarrow> ('m, 'e) Container \<times> effect list" where
  "onScrollBeginDrag c =
     (c, case at_index (itemsRef c) (storyIndex c) of
           Some (Some r) \<Rightarrow> onScrollBegin r
         | _ \<Rightarrow> [])"

definition onScrollEndDrag :: "('m, 'e) Container \<Rightarrow> ('m, 'e) Container \<times> effect list" where
  "onScrollEndDrag c =
     (c, case at_index (itemsRef c) (storyIndex c) of
           Some (Some r) \<Rightarrow> onScrollEnd r
         | _ \<Rightarrow> [])"

definition handleLongPress ::
  "('m, 'e) Container \<Rightarrow> bool \<Rightarrow> ('m, 'e) Container \<times> effect list" where
  "handleLongPress c visiblity =
     (c, case at_index (itemsRef c) (storyIndex c) of
           Some (Some r) \<Rightarrow> ListItem_handleLongPress r visiblity
         | _ \<Rightarrow> [])"

text \<open>\<^verbatim>\<open>onLayout={() => setIsLoading(true)}\<close>; nothing sets the flag back.\<close>

definition onLayout :: "('m, 'e) Container \<Rightarrow> ('m, 'e) Container \<times> effect list" where
  "onLayout c = (c\<lparr>isLoading := True\<rparr>, [])"

text \<open>
  The ref callback of a list item, \<^verbatim>\<open>itemsRef.current[index] = elements\<close>: an
  assignment past the end of a JavaScript array lengthens it, leaving holes.
\<close>

definition setItemRef ::
  "nat \<Rightarrow> ListItemRef option \<Rightarrow> ('m, 'e) Container \<Rightarrow> ('m, 'e) Container" where
  "setItemRef i elements c =
     c\<lparr>itemsRef :=
         (if i < length (itemsRef c) then (itemsRef c)[i := elements]
          else itemsRef c @ replicate (i - length (itemsRef c)) None @ [elements])\<rparr>"

text \<open>The body of the first effect, \<^verbatim>\<open>itemsRef.current.slice(0, stories.length)\<close>.\<close>

definition trimItemsRef :: "('m, 'e) Container \<Rightarrow> ('m, 'e) Container" where
  "trimItemsRef c = c\<lparr>itemsRef := take (length (stories c)) (itemsRef c)\<rparr>"

text \<open>
  The second effect, with the dependencies \<^verbatim>\<open>[onUserStoryIndexChange, storyIndex]\<close>.
  React runs an effect after the first commit, and after a later commit when a dependency
  differs from its value at the commit before.
\<close>

definition storyIndexEffect :: "('m, 'e) Container \<Rightarrow> ('m, 'e) Container \<times> effect list" where
  "storyIndexEffect c =
     (if effectDeps c = Some (onUserStoryIndexChange c, storyIndex c)
      then (c, [])
      else (c\<lparr>effectDeps := Some (onUserStoryIndexChange c, storyIndex c)\<rparr>,
            case onUserStoryIndexChange c of
              None \<Rightarrow> []
            | Some f \<Rightarrow> [Call_onUserStoryIndexChange f (storyIndex c)]))"

text \<open>
  A run of commits: the hook's index at each commit, the callback staying the same. The
  result is every call the effect made, in order.
\<close>

fun commits :: "('m, 'e) Container \<Rightarrow> int list \<Rightarrow> effect list" where
  "commits c [] = []"
| "commits c (i # js) =
     (case storyIndexEffect (c\<lparr>storyIndex := i\<rparr>) of
        (c', es) \<Rightarrow> es @ commits c' js)"

subsection \<open>Rendering\<close>

record ItemLayout =
  layout_length :: double
  layout_offset :: double
  layout_index :: nat

definition getItemLayout :: "Metrics \<Rightarrow> nat \<Rightarrow> ItemLayout" where
  "getItemLayout M i =
     \<lparr> layout_length = screenWidth M,
       layout_offset = dmul (screenWidth M) (double_of_nat i),
       layout_index = i \<rparr>"

text \<open>
  \<^verbatim>\<open>renderItem\<close>: the props named in the object literal, then \<^verbatim>\<open>{...props}\<close>, the
  container's rest props, which replace a named prop whose key they carry. The two
  navigation closures keep the render's index, stories and callback, and read the list
  ref when called.
\<close>

definition renderItem ::
  "'y StoryTransitions \<Rightarrow> ('m, 'e) Container \<Rightarrow> 'm StoriesType \<Rightarrow> nat \<Rightarrow> ('m, 'e, 'y) ItemView" where
  "renderItem T c g i =
     MultiStoryListItem T
       \<lparr> li_item = (case rp_item (rowProps c) of None \<Rightarrow> g | Some g' \<Rightarrow> g'),
         li_index = (case rp_index (rowProps c) of None \<Rightarrow> i | Some i' \<Rightarrow> i'),
         li_scrollX = (case rp_scrollX (rowProps c) of None \<Rightarrow> scrollX c | Some x \<Rightarrow> x),
         li_nextStory =
           (case rp_nextStory (rowProps c) of
              None \<Rightarrow> (\<lambda>r. snd (nextStory (c\<lparr>flatListRef := r\<rparr>)))
            | Some n \<Rightarrow> n),
         li_previousStory =
           (case rp_previousStory (rowProps c) of
              None \<Rightarrow> (\<lambda>r. snd (previousStory (c\<lparr>flatListRef := r\<rparr>)))
            | Some n \<Rightarrow> n),
         li_storyIndex =
           (case rp_storyIndex (rowProps c) of None \<Rightarrow> storyIndex c | Some k \<Rightarrow> k),
         li_onComplete = onComplete c,
         li_viewedStories =
           Some (case viewedStories c of None \<Rightarrow> [] | Some vs \<Rightarrow> vs),
         li_isLoading =
           (case rp_isLoading (rowProps c) of None \<Rightarrow> isLoading c | Some b \<Rightarrow> b),
         li_props = props c \<rparr>"

record ('m, 'e, 'y) FlatListView =
  fl_data :: "'m StoriesType list"
  fl_initialNumToRender :: nat
  fl_scrollEventThrottle :: nat
  fl_initialScrollIndex :: int
  fl_getItemLayout :: "nat \<Rightarrow> ItemLayout"
  fl_decelerationRate :: double
  fl_contentContainerStyle_width :: double
  fl_extraData :: int
  fl_renderItem :: "'m StoriesType \<Rightarrow> nat \<Rightarrow> ('m, 'e, 'y) ItemView"

record ('m, 'e, 'y) ModalView =
  modal_visible :: bool
  modal_transparent :: bool
  modal_onRequestClose :: "effect list"
  pan_activateAfterLongPress :: nat
  modal_list :: "('m, 'e, 'y) FlatListView"

text \<open>
  What the component returns: \<open>None\<close> is \<^verbatim>\<open>null\<close>. Otherwise the modal, and in it
  the gesture root, the pan handler and the list; the handler props of the list are the
  closures above. The two deceleration rates are the binary64 values of the literals
  \<^verbatim>\<open>0.99\<close> and \<^verbatim>\<open>0.92\<close>.
\<close>

definition MultiStoryContainer ::
  "Metrics \<Rightarrow> 'y StoryTransitions \<Rightarrow> ('m, 'e) Container \<Rightarrow> ('m, 'e, 'y) ModalView option" where
  "MultiStoryContainer M T c =
     (if visible c \<noteq> Some True then None
      else Some
        \<lparr> modal_visible = True,
          modal_transparent = True,
          modal_onRequestClose = onClosePress (onComplete c),
          pan_activateAfterLongPress = 200,
          modal_list =
            \<lparr> fl_data = stories c,
              fl_initialNumToRender = 2,
              fl_scrollEventThrottle = 16,
              fl_initialScrollIndex = storyIndex c,
              fl_getItemLayout = getItemLayout M,
              fl_decelerationRate =
                (if isIOS M then Double 4458563631096791 (- 52) else Double 8286623314361713 (- 53)),
              fl_contentContainerStyle_width =
                dmul (screenWidth M) (double_of_nat (length (stories c))),
              fl_extraData = storyIndex c,
              fl_renderItem = renderItem T c \<rparr> \<rparr>)"

text \<open>
  The instance at its first render: both refs empty (\<^verbatim>\<open>useRef(null)\<close>,
  \<^verbatim>\<open>useRef([])\<close>), \<^verbatim>\<open>useState(false)\<close>, no effect run yet.
\<close>

definition firstRender ::
  "'m StoriesType list \<Rightarrow> bool option \<Rightarrow> callback option \<Rightarrow> callback option \<Rightarrow>
   bool list list option \<Rightarrow> 'm RowProps \<Rightarrow> ('m, 'e) RestProps \<Rightarrow> int \<Rightarrow> real \<Rightarrow>
   ('m, 'e) Container" where
  "firstRender ss v oc ou vs rp r i x =
     \<lparr> stories = ss, visible = v, onComplete = oc, onUserStoryIndexChange = ou,
       viewedStories = vs, rowProps = rp, props = r, flatListRef = None, itemsRef = [],
       isLoading = False, effectDeps = None, storyIndex = i, scrollX = x \<rparr>"

subsection \<open>Sample inputs\<close>

definition noRestProps :: "(nat, string) RestProps" where
  "noRestProps =
     \<lparr> transitionMode = None, renderIndicatorComponent = None, userStories = None,
       progressIndex = None, maxVideoDuration = None, renderHeaderComponent = None,
       renderFooterComponent = None \<rparr>"

definition noRowProps :: "nat RowProps" where
  "noRowProps =
     \<lparr> rp_item = None, rp_index = None, rp_nextStory = None, rp_previousStory = None,
       rp_storyIndex = None, rp_scrollX = None, rp_isLoading = None \<rparr>"

definition amy :: "nat StoriesType" where
  "amy = \<lparr> item_id = 1, item_username = ''amy'', item_title = ''trip'',
           item_profile = None, item_stories = [10, 11, 12] \<rparr>"

definition ben :: "nat StoriesType" where
  "ben = \<lparr> item_id = 2, item_username = ''ben'', item_title = ''lunch'',
           item_profile = Some ''ben.png'', item_stories = [20, 21] \<rparr>"

definition namedTransitions :: "string StoryTransitions" where
  "namedTransitions =
     \<lparr> cubeTransition = (\<lambda>i x. ''cube''),
       scaleTransition = (\<lambda>i x. ''scale''),
       defaultTransition = ''default'' \<rparr>"

text \<open>
  A screen 390 wide, and one \<open>411.42857142857144\<close> wide (1080 pixels at density
  2.625), which is \<open>3618963986279863 / 2 ^ 43\<close>.
\<close>

definition phone :: Metrics where
  "phone = \<lparr> screenWidth = Double 390 0, isIOS = True \<rparr>"

definition android :: Metrics where
  "android = \<lparr> screenWidth = Double 3618963986279863 (- 43), isIOS = False \<rparr>"

text \<open>The row of the first group while that group is current and the list is not laid out.\<close>

definition amyRow :: "(nat, string) MultiStoryListItemProps" where
  "amyRow =
     \<lparr> li_item = amy, li_index = 0, li_scrollX = 0,
       li_nextStory = (\<lambda>r. []), li_previousStory = (\<lambda>r. []),
       li_storyIndex = 0, li_onComplete = Some 7,
       li_viewedStories = Some [[True, False, False], [True, True]],
       li_isLoading = False, li_props = noRestProps \<rparr>"

text \<open>Two story groups, shown, the first one current, with both callbacks supplied.\<close>

definition twoGroups :: "(nat, string) Container" where
  "twoGroups =
     firstRender [amy, ben] (Some True) (Some 7) (Some 8)
       (Some [[True, False, False], [True, True]]) noRowProps noRestProps 0 0"

section \<open>Navigation between story groups\<close>

lemma nextStory_keeps_instance: "fst (nextStory c) = c"
  by (simp add: nextStory_def)

lemma previousStory_keeps_instance: "fst (previousStory c) = c"
  by (simp add: previousStory_def)

text \<open>
  C1, as the code has it. At the last group (\<open>storyIndex + 1 = stories.length\<close>)
  \<open>nextStory\<close> invokes the supplied \<open>onComplete\<close> callback (nothing, when none was
  supplied) and issues no scroll command. Before the last group
  (\<open>storyIndex + 1 < stories.length\<close>) it does not invoke \<open>onComplete\<close>, and while the
  list ref is attached it issues exactly one \<open>scrollToIndex\<close> command, to
  \<open>storyIndex + 1\<close>, animated; while the list ref is empty it issues nothing. The
  instance itself is never changed.
\<close>

theorem nextStory_last_completes_else_scrolls_attached_list:
  "(storyIndex c + 1 = int (length (stories c)) \<and> onComplete c = Some f
      \<longrightarrow> nextStory c = (c, [Call_onComplete f]))
   \<and> (storyIndex c + 1 = int (length (stories c)) \<and> onComplete c = None
      \<longrightarrow> nextStory c = (c, []))
   \<and> (storyIndex c + 1 < int (length (stories c)) \<and> flatListRef c = Some l
      \<longrightarrow> nextStory c = (c, [FlatList_scrollToIndex l (storyIndex c + 1) True]))
   \<and> (storyIndex c + 1 < int (length (stories c)) \<and> flatListRef c = None
      \<longrightarrow> nextStory c = (c, []))"
  by (simp add: nextStory_def)

theorem nextStory_last_completes_else_scrolls_attached_list_witness:
  "nextStory (twoGroups\<lparr>storyIndex := 1\<rparr>) = (twoGroups\<lparr>storyIndex := 1\<rparr>, [Call_onComplete 7])
   \<and> nextStory (twoGroups\<lparr>onComplete := None, storyIndex := 1\<rparr>)
       = (twoGroups\<lparr>onComplete := None, storyIndex := 1\<rparr>, [])
   \<and> nextStory (twoGroups\<lparr>flatListRef := Some 3\<rparr>)
       = (twoGroups\<lparr>flatListRef := Some 3\<rparr>, [FlatList_scrollToIndex 3 1 True])
   \<and> nextStory twoGroups = (twoGroups, [])"
  using nextStory_last_completes_else_scrolls_attached_list
          [of "twoGroups\<lparr>storyIndex := 1\<rparr>" 7 3]
        nextStory_last_completes_else_scrolls_attached_list
          [of "twoGroups\<lparr>onComplete := None, storyIndex := 1\<rparr>" 7 3]
        nextStory_last_completes_else_scrolls_attached_list
          [of "twoGroups\<lparr>flatListRef := Some 3\<rparr>" 7 3]
        nextStory_last_completes_else_scrolls_attached_list [of twoGroups 7 3]
  by (simp add: twoGroups_def firstRender_def)

text \<open>
  C1 as stated fails while the list ref is empty: on two groups with the first one current,
  \<open>storyIndex + 1 < stories.length\<close>, and \<open>nextStory\<close> issues no command at all.
\<close>

theorem nextStory_empty_list_ref_counterexample:
  "flatListRef twoGroups = None
   \<and> storyIndex twoGroups + 1 < int (length (stories twoGroups))
   \<and> snd (nextStory twoGroups) = []"
  by (simp add: nextStory_def twoGroups_def firstRender_def)

text \<open>
  C2, as the code has it. At \<open>storyIndex = 0\<close>, \<open>previousStory\<close> changes nothing: no scroll
  command, no callback. For every \<open>storyIndex\<close> greater than 0 it issues exactly one
  \<open>scrollToIndex\<close> command, to \<open>storyIndex - 1\<close>, provided the list ref is attached,
  and leaves the instance unchanged; while the list ref is empty it issues nothing.
\<close>

theorem previousStory_first_noop_else_scrolls_attached_list:
  "(storyIndex c = 0 \<longrightarrow> previousStory c = (c, []))
   \<and> (0 < storyIndex c \<and> flatListRef c = Some l
      \<longrightarrow> previousStory c = (c, [FlatList_scrollToIndex l (storyIndex c - 1) True]))
   \<and> (flatListRef c = None \<longrightarrow> previousStory c = (c, []))"
  by (simp add: previousStory_def)

theorem previousStory_first_noop_else_scrolls_attached_list_witness:
  "previousStory (twoGroups\<lparr>flatListRef := Some 3\<rparr>) = (twoGroups\<lparr>flatListRef := Some 3\<rparr>, [])
   \<and> previousStory (twoGroups\<lparr>flatListRef := Some 3, storyIndex := 1\<rparr>)
       = (twoGroups\<lparr>flatListRef := Some 3, storyIndex := 1\<rparr>, [FlatList_scrollToIndex 3 0 True])
   \<and> previousStory (twoGroups\<lparr>storyIndex := 1\<rparr>) = (twoGroups\<lparr>storyIndex := 1\<rparr>, [])"
  using previousStory_first_noop_else_scrolls_attached_list
          [of "twoGroups\<lparr>flatListRef := Some 3\<rparr>" 3]
        previousStory_first_noop_else_scrolls_attached_list
          [of "twoGroups\<lparr>flatListRef := Some 3, storyIndex := 1\<rparr>" 3]
        previousStory_first_noop_else_scrolls_attached_list
          [of "twoGroups\<lparr>storyIndex := 1\<rparr>" 3]
  by (simp add: twoGroups_def firstRender_def)

text \<open>
  C2 as stated fails while the list ref is empty: with the second group current,
  \<open>storyIndex\<close> is greater than 0 and \<open>previousStory\<close> issues no command.
\<close>

theorem previousStory_empty_list_ref_counterexample:
  "flatListRef (twoGroups\<lparr>storyIndex := 1\<rparr>) = None
   \<and> 0 < storyIndex (twoGroups\<lparr>storyIndex := 1\<rparr>)
   \<and> snd (previousStory (twoGroups\<lparr>storyIndex := 1\<rparr>)) = []"
  by (simp add: previousStory_def twoGroups_def firstRender_def)

section \<open>Commands forwarded to the active story\<close>

lemma setItemRef_registers:
  "at_index (itemsRef (setItemRef i elements c)) (int i) = Some elements"
  by (simp add: setItemRef_def at_index_def nth_append)

text \<open>
  C3. Let \<open>r\<close> be the handle registered for the current index in \<open>itemsRef\<close>, and \<open>s\<close>
  the story component its \<open>storyRef\<close> holds. The handle's \<open>onScrollBegin\<close> calls
  \<open>pause(true)\<close> on \<open>s\<close>, its \<open>onScrollEnd\<close> calls \<open>pause(false)\<close>, and its
  \<open>handleLongPress(v)\<close> calls \<open>handleLongPress(v)\<close> on \<open>s\<close> for every boolean \<open>v\<close>;
  the container's \<open>onScrollBeginDrag\<close>, \<open>onScrollEndDrag\<close> and \<open>handleLongPress\<close>
  make exactly these calls and change nothing.
\<close>

theorem container_commands_reach_active_story:
  assumes "at_index (itemsRef c) (storyIndex c) = Some (Some r)"
      and "storyRef r = Some s"
  shows "onScrollBegin r = [Story_pause s True]
       \<and> onScrollEnd r = [Story_pause s False]
       \<and> ListItem_handleLongPress r v = [Story_handleLongPress s v]
       \<and> onScrollBeginDrag c = (c, [Story_pause s True])
       \<and> onScrollEndDrag c = (c, [Story_pause s False])
       \<and> handleLongPress c v = (c, [Story_handleLongPress s v])"
  using assms
  by (simp add: onScrollBegin_def onScrollEnd_def ListItem_handleLongPress_def
        onScrollBeginDrag_def onScrollEndDrag_def handleLongPress_def)

theorem container_commands_reach_active_story_witness:
  "at_index (itemsRef (setItemRef 0 (Some \<lparr>storyRef = Some 5\<rparr>) twoGroups))
       (storyIndex (setItemRef 0 (Some \<lparr>storyRef = Some 5\<rparr>) twoGroups))
     = Some (Some \<lparr>storyRef = Some 5\<rparr>)
   \<and> onScrollBeginDrag (setItemRef 0 (Some \<lparr>storyRef = Some 5\<rparr>) twoGroups)
     = (setItemRef 0 (Some \<lparr>storyRef = Some 5\<rparr>) twoGroups, [Story_pause 5 True])
   \<and> onScrollEndDrag (setItemRef 0 (Some \<lparr>storyRef = Some 5\<rparr>) twoGroups)
     = (setItemRef 0 (Some \<lparr>storyRef = Some 5\<rparr>) twoGroups, [Story_pause 5 False])
   \<and> handleLongPress (setItemRef 0 (Some \<lparr>storyRef = Some 5\<rparr>) twoGroups) False
     = (setItemRef 0 (Some \<lparr>storyRef = Some 5\<rparr>) twoGroups, [Story_handleLongPress 5 False])"
proof -
  have registered:
    "at_index (itemsRef (setItemRef 0 (Some \<lparr>storyRef = Some 5\<rparr>) twoGroups))
       (storyIndex (setItemRef 0 (Some \<lparr>storyRef = Some 5\<rparr>) twoGroups))
     = Some (Some \<lparr>storyRef = Some 5\<rparr>)"
    by (simp add: setItemRef_def at_index_def twoGroups_def firstRender_def)
  have held: "storyRef \<lparr>storyRef = Some 5\<rparr> = Some 5"
    by simp
  from container_commands_reach_active_story [OF registered held, of False] registered
  show ?thesis by simp
qed

section \<open>What a list item renders\<close>

lemma firstRender_not_loading: "\<not> isLoading (firstRender ss v oc ou vs rp r i x)"
  by (simp add: firstRender_def)

lemma onLayout_sets_loading: "isLoading (fst (onLayout c))"
  by (simp add: onLayout_def)

lemma onLayout_keeps_index: "storyIndex (fst (onLayout c)) = storyIndex c"
  by (simp add: onLayout_def)

lemma indicatorComponent_cases:
  "indicatorComponent r =
     (if renderIndicatorComponent r = None \<or> renderIndicatorComponent r = Some None
      then Indicator
      else CustomIndicator (the (the (renderIndicatorComponent r))))"
  by (simp add: indicatorComponent_def split: option.splits)

text \<open>
  C4, as the code has it. Unless the forwarded props themselves supply \<open>index\<close>,
  \<open>storyIndex\<close> or \<open>isLoading\<close> (the props spread follows the props \<open>renderItem\<close>
  names and would override them): while \<open>isLoading\<close> is false (from the first render
  until the list's \<open>onLayout\<close> fires), a list item renders the \<open>StoryContainer\<close>
  exactly when its index equals the current \<open>storyIndex\<close>, and an item at any other
  index renders the indicator placeholder (what the caller's \<open>renderIndicatorComponent\<close>
  returns, or the default \<open>Indicator\<close>). Once \<open>onLayout\<close> has fired, every item
  renders a \<open>StoryContainer\<close>, whatever its index.
\<close>

theorem story_content_only_at_current_index_until_layout:
  assumes "rp_index (rowProps c) = None"
      and "rp_storyIndex (rowProps c) = None"
      and "rp_isLoading (rowProps c) = None"
  shows "(\<not> isLoading c \<longrightarrow>
            rendersStoryContainer (renderItem T c g i) = (storyIndex c = int i)
            \<and> (storyIndex c \<noteq> int i \<longrightarrow>
                 renderItem T c g i = IndicatorView (indicatorComponent (props c))))
       \<and> rendersStoryContainer (renderItem T (fst (onLayout c)) g i)"
  using assms by (simp add: renderItem_def MultiStoryListItem_def onLayout_def)

theorem story_content_only_at_current_index_until_layout_witness:
  "rp_index (rowProps twoGroups) = None
   \<and> rp_storyIndex (rowProps twoGroups) = None
   \<and> rp_isLoading (rowProps twoGroups) = None
   \<and> \<not> isLoading twoGroups
   \<and> rendersStoryContainer (renderItem namedTransitions twoGroups amy 0)
   \<and> storyIndex twoGroups \<noteq> int 1
   \<and> renderItem namedTransitions twoGroups ben 1 = IndicatorView Indicator
   \<and> rendersStoryContainer (renderItem namedTransitions (fst (onLayout twoGroups)) ben 1)"
proof -
  have unsupplied:
    "rp_index (rowProps twoGroups) = None"
    "rp_storyIndex (rowProps twoGroups) = None"
    "rp_isLoading (rowProps twoGroups) = None"
    by (simp_all add: twoGroups_def firstRender_def noRowProps_def)
  from story_content_only_at_current_index_until_layout
         [OF unsupplied, of namedTransitions amy 0]
       story_content_only_at_current_index_until_layout
         [OF unsupplied, of namedTransitions ben 1]
       unsupplied
  show ?thesis
    by (simp add: twoGroups_def firstRender_def indicatorComponent_def noRestProps_def)
qed

text \<open>
  C4 as stated fails after the list is laid out, the caller passing none of the three
  keys: with the first group current, the item at index 1 renders a \<open>StoryContainer\<close>,
  not the indicator.
\<close>

theorem story_content_after_layout_counterexample:
  "storyIndex (fst (onLayout twoGroups)) = 0
   \<and> rendersStoryContainer (renderItem namedTransitions (fst (onLayout twoGroups)) ben 1)
   \<and> renderItem namedTransitions (fst (onLayout twoGroups)) ben 1
       \<noteq> IndicatorView (indicatorComponent (props (fst (onLayout twoGroups))))"
  by (simp add: renderItem_def MultiStoryListItem_def onLayout_def twoGroups_def
        firstRender_def noRowProps_def)

text \<open>A key the caller passes wins over the row's own value.\<close>

lemma renderItem_isLoading_supplied:
  assumes "rp_index (rowProps c) = None"
      and "rp_storyIndex (rowProps c) = None"
      and "rp_isLoading (rowProps c) = Some b"
  shows "rendersStoryContainer (renderItem T c g i) = (storyIndex c = int i \<or> b)"
  using assms by (simp add: renderItem_def MultiStoryListItem_def)

lemma renderItem_index_supplied:
  assumes "rp_index (rowProps c) = Some i'"
      and "rp_storyIndex (rowProps c) = None"
      and "rp_isLoading (rowProps c) = None"
  shows "rendersStoryContainer (renderItem T c g i) = (storyIndex c = int i' \<or> isLoading c)"
  using assms by (simp add: renderItem_def MultiStoryListItem_def)

subsection \<open>The slide a story group starts at\<close>

lemma findIndex_from_absent:
  "\<forall>x \<in> set xs. \<not> p x \<Longrightarrow> findIndex_from p xs k = - 1"
  by (induction xs arbitrary: k) auto

lemma findIndex_from_present:
  "\<exists>x \<in> set xs. p x \<Longrightarrow>
     \<exists>j < length xs. findIndex_from p xs k = k + int j \<and> p (xs ! j) \<and> (\<forall>i < j. \<not> p (xs ! i))"
proof (induction xs arbitrary: k)
  case Nil
  then show ?case by simp
next
  case (Cons x xs)
  show ?case
  proof (cases "p x")
    case True
    then have "findIndex_from p (x # xs) k = k + int 0 \<and> p ((x # xs) ! 0)
        \<and> (\<forall>i < (0::nat). \<not> p ((x # xs) ! i))"
      by simp
    then show ?thesis by blast
  next
    case False
    with Cons.prems have "\<exists>y \<in> set xs. p y" by auto
    from Cons.IH [OF this, of "k + 1"] obtain j where j:
      "j < length xs" "findIndex_from p xs (k + 1) = k + 1 + int j"
      "p (xs ! j)" "\<forall>i < j. \<not> p (xs ! i)"
      by blast
    have "\<forall>i < Suc j. \<not> p ((x # xs) ! i)"
    proof (intro allI impI)
      fix i assume "i < Suc j"
      then show "\<not> p ((x # xs) ! i)"
        using False j(4) by (cases i) auto
    qed
    with False j have "Suc j < length (x # xs)
        \<and> findIndex_from p (x # xs) k = k + int (Suc j)
        \<and> p ((x # xs) ! Suc j) \<and> (\<forall>i < Suc j. \<not> p ((x # xs) ! i))"
      by simp
    then show ?thesis by blast
  qed
qed

lemma progressIndex_literal_first_unviewed:
  assumes "li_viewedStories p = Some vs"
      and "at_index vs (int (li_index p)) = Some a"
  shows "\<exists>n. progressIndex_literal p = Some n \<and> 0 \<le> n \<and>
           (if False \<in> set a
            then n < int (length a) \<and> a ! nat n = False \<and> (\<forall>j < nat n. a ! j = True)
            else n = 0)"
proof (cases "False \<in> set a")
  case True
  then have "\<exists>x \<in> set a. \<not> x" by blast
  from findIndex_from_present [OF this, of 0] obtain j where j:
    "j < length a" "findIndex_from (\<lambda>val. \<not> val) a 0 = int j"
    "\<not> a ! j" "\<forall>i < j. a ! i"
    by auto
  have "progressIndex_literal p = Some (int j)"
    using assms j(2) by (simp add: progressIndex_literal_def storyInitialIndex_def findIndex_def)
  with True j show ?thesis by simp
next
  case False
  then have "\<forall>x \<in> set a. \<not> \<not> x" by (metis (full_types))
  from findIndex_from_absent [OF this, of 0]
  have "progressIndex_literal p = Some 0"
    using assms by (simp add: progressIndex_literal_def storyInitialIndex_def findIndex_def)
  with False show ?thesis by simp
qed

text \<open>
  C5, as the code has it. For every list item that renders its \<open>StoryContainer\<close>, whose
  \<open>viewedStories[index]\<close> array is present and whose rest props carry no
  \<open>progressIndex\<close> of their own, the \<open>progressIndex\<close> passed to the \<open>StoryContainer\<close>
  is the position of the first \<open>false\<close> of \<open>viewedStories[index]\<close>, and 0 when every
  entry is \<open>true\<close>; it is never negative.
\<close>

theorem progressIndex_first_unviewed_unless_supplied:
  assumes "MultiStoryListItem T p = StoryContainerView st sp"
      and "li_viewedStories p = Some vs"
      and "at_index vs (int (li_index p)) = Some a"
      and "progressIndex (li_props p) = None"
  shows "\<exists>n. sc_progressIndex sp = Some n \<and> 0 \<le> n \<and>
           (if False \<in> set a
            then n < int (length a) \<and> a ! nat n = False \<and> (\<forall>j < nat n. a ! j = True)
            else n = 0)"
proof -
  from assms(1) have "sp = storyContainerProps p"
    by (simp add: MultiStoryListItem_def split: if_splits)
  with assms(4) have "sc_progressIndex sp = progressIndex_literal p"
    by (simp add: storyContainerProps_def)
  with progressIndex_literal_first_unviewed [OF assms(2,3)] show ?thesis
    by simp
qed

theorem progressIndex_first_unviewed_unless_supplied_witness:
  "MultiStoryListItem namedTransitions amyRow
     = StoryContainerView ''default'' (storyContainerProps amyRow)
   \<and> li_viewedStories amyRow = Some [[True, False, False], [True, True]]
   \<and> at_index [[True, False, False], [True, True]] (int (li_index amyRow))
       = Some [True, False, False]
   \<and> progressIndex (li_props amyRow) = None
   \<and> sc_progressIndex (storyContainerProps amyRow) = Some 1"
proof -
  have rendered: "MultiStoryListItem namedTransitions amyRow
      = StoryContainerView ''default'' (storyContainerProps amyRow)"
    by (simp add: MultiStoryListItem_def animationStyle_def amyRow_def noRestProps_def
          namedTransitions_def)
  have viewed: "li_viewedStories amyRow = Some [[True, False, False], [True, True]]"
    by (simp add: amyRow_def)
  have present: "at_index [[True, False, False], [True, True]] (int (li_index amyRow))
      = Some [True, False, False]"
    by (simp add: at_index_def amyRow_def)
  have unsupplied: "progressIndex (li_props amyRow) = None"
    by (simp add: amyRow_def noRestProps_def)
  from progressIndex_first_unviewed_unless_supplied [OF rendered viewed present unsupplied]
  obtain n where n: "sc_progressIndex (storyContainerProps amyRow) = Some n"
    "n < 3" "[True, False, False] ! nat n = False" "\<forall>j < nat n. [True, False, False] ! j = True"
    "0 \<le> n"
    by auto
  have "n = 1"
  proof -
    from n(2,5) have "n = 0 \<or> n = 1 \<or> n = 2" by arith
    then show ?thesis
    proof (elim disjE)
      assume "n = 0" with n(3) show ?thesis by simp
    next
      assume "n = 1" then show ?thesis .
    next
      assume "n = 2"
      then have "(1::nat) < nat n" by simp
      with n(4) have "[True, False, False] ! (1::nat) = True" by blast
      then show ?thesis by simp
    qed
  qed
  with n(1) rendered viewed present unsupplied show ?thesis by simp
qed

text \<open>
  C5 as stated fails when the caller passes a \<open>progressIndex\<close> of its own: the spread
  \<open>{...props}\<close> follows the literal and replaces it. Here the first unviewed slide of
  the first group is at position 1, the caller passes 2, and the \<open>StoryContainer\<close>
  receives 2.
\<close>

theorem progressIndex_supplied_by_caller_counterexample:
  "MultiStoryListItem namedTransitions
       (amyRow\<lparr>li_props := noRestProps\<lparr>progressIndex := Some 2\<rparr>\<rparr>)
     = StoryContainerView ''default''
         (storyContainerProps (amyRow\<lparr>li_props := noRestProps\<lparr>progressIndex := Some 2\<rparr>\<rparr>))
   \<and> findIndex (\<lambda>val. \<not> val) [True, False, False] = 1
   \<and> sc_progressIndex
         (storyContainerProps (amyRow\<lparr>li_props := noRestProps\<lparr>progressIndex := Some 2\<rparr>\<rparr>))
       = Some 2"
  by (simp add: MultiStoryListItem_def animationStyle_def storyContainerProps_def
        findIndex_def amyRow_def noRestProps_def namedTransitions_def)

subsection \<open>The animated style\<close>

text \<open>
  C6. The animated style of a list item follows its \<open>transitionMode\<close> prop alone:
  \<open>cubeTransition(index, scrollX)\<close> for \<open>Cube\<close>, \<open>scaleTransition(index, scrollX)\<close>
  for \<open>Scale\<close>, and \<open>defaultTransition()\<close> for every other value and for no value.
\<close>

theorem animationStyle_by_transitionMode:
  "(transitionMode (li_props p) = Some Cube
      \<longrightarrow> animationStyle T p = cubeTransition T (li_index p) (li_scrollX p))
   \<and> (transitionMode (li_props p) = Some Scale
      \<longrightarrow> animationStyle T p = scaleTransition T (li_index p) (li_scrollX p))
   \<and> (transitionMode (li_props p) \<noteq> Some Cube \<and> transitionMode (li_props p) \<noteq> Some Scale
      \<longrightarrow> animationStyle T p = defaultTransition T)"
  by (simp add: animationStyle_def split: option.splits TransitionMode.splits)

theorem animationStyle_by_transitionMode_witness:
  "animationStyle namedTransitions
       (amyRow\<lparr>li_props := noRestProps\<lparr>transitionMode := Some Cube\<rparr>\<rparr>) = ''cube''
   \<and> animationStyle namedTransitions
       (amyRow\<lparr>li_props := noRestProps\<lparr>transitionMode := Some Scale\<rparr>\<rparr>) = ''scale''
   \<and> animationStyle namedTransitions
       (amyRow\<lparr>li_props := noRestProps\<lparr>transitionMode := Some (OtherMode 0)\<rparr>\<rparr>) = ''default''
   \<and> animationStyle namedTransitions amyRow = ''default''"
  using animationStyle_by_transitionMode
          [of "amyRow\<lparr>li_props := noRestProps\<lparr>transitionMode := Some Cube\<rparr>\<rparr>" namedTransitions]
        animationStyle_by_transitionMode
          [of "amyRow\<lparr>li_props := noRestProps\<lparr>transitionMode := Some Scale\<rparr>\<rparr>" namedTransitions]
        animationStyle_by_transitionMode
          [of "amyRow\<lparr>li_props := noRestProps\<lparr>transitionMode := Some (OtherMode 0)\<rparr>\<rparr>"
              namedTransitions]
        animationStyle_by_transitionMode [of amyRow namedTransitions]
  by (simp add: amyRow_def noRestProps_def namedTransitions_def)

subsection \<open>The fixed video limit\<close>

text \<open>
  C10. Unless the rest props carry a \<open>maxVideoDuration\<close> of their own, the
  \<open>StoryContainer\<close> a list item renders receives \<open>maxVideoDuration = 15\<close>.
\<close>

theorem maxVideoDuration_15_unless_supplied:
  assumes "maxVideoDuration (li_props p) = None"
      and "MultiStoryListItem T p = StoryContainerView st sp"
  shows "sc_maxVideoDuration sp = 15"
proof -
  from assms(2) have "sp = storyContainerProps p"
    by (simp add: MultiStoryListItem_def split: if_splits)
  with assms(1) show ?thesis
    by (simp add: storyContainerProps_def)
qed

theorem maxVideoDuration_15_unless_supplied_witness:
  "maxVideoDuration (li_props amyRow) = None
   \<and> MultiStoryListItem namedTransitions amyRow
       = StoryContainerView ''default'' (storyContainerProps amyRow)
   \<and> sc_maxVideoDuration (storyContainerProps amyRow) = 15"
proof -
  have unsupplied: "maxVideoDuration (li_props amyRow) = None"
    by (simp add: amyRow_def noRestProps_def)
  have rendered: "MultiStoryListItem namedTransitions amyRow
      = StoryContainerView ''default'' (storyContainerProps amyRow)"
    by (simp add: MultiStoryListItem_def animationStyle_def amyRow_def noRestProps_def
          namedTransitions_def)
  from maxVideoDuration_15_unless_supplied [OF unsupplied rendered] unsupplied rendered
  show ?thesis by simp
qed

lemma maxVideoDuration_supplied_wins:
  "maxVideoDuration (li_props p) = Some d \<Longrightarrow>
     sc_maxVideoDuration (storyContainerProps p) = d"
  by (simp add: storyContainerProps_def)

section \<open>What the container renders\<close>

lemma round53_exact: "\<bar>m\<bar> < 2 ^ 53 \<Longrightarrow> round53 m e = Double m e"
proof -
  assume "\<bar>m\<bar> < 2 ^ 53"
  then have "bitlen \<bar>m\<bar> \<le> 53"
    by (simp add: bitlen_le_iff_power)
  then show ?thesis by (simp add: round53_def)
qed

lemma dval_scale: "dval (Double (m * k) e) = dval (Double m e) * of_int k"
  by (simp add: dval_def)

lemma dmul_position_exact:
  assumes "0 < mant w" and "mant w * int n < 2 ^ 53"
  shows "dmul w (double_of_nat n) = Double (mant w * int n) (expo w)"
    and "dval (dmul w (double_of_nat n)) = dval w * real n"
proof -
  from assms(1) have "int n * 1 \<le> int n * mant w"
    by (intro mult_left_mono) simp_all
  with assms(2) have "\<bar>int n\<bar> < 2 ^ 53"
    by (simp add: mult.commute)
  then have n: "double_of_nat n = Double (int n) 0"
    by (simp add: double_of_nat_def round53_exact)
  from assms have "\<bar>mant w * int n\<bar> < 2 ^ 53"
    by (simp add: abs_mult)
  with n show exact: "dmul w (double_of_nat n) = Double (mant w * int n) (expo w)"
    by (simp add: dmul_def round53_exact)
  have "dval (Double (mant w * int n) (expo w)) = dval (Double (mant w) (expo w)) * of_int (int n)"
    by (rule dval_scale)
  with exact show "dval (dmul w (double_of_nat n)) = dval w * real n"
    by simp
qed

text \<open>
  C7, as the code has it. In the rendered list, \<open>getItemLayout\<close> gives every index
  \<open>i\<close> the length \<open>Metrics.screenWidth\<close> and the offset \<open>Metrics.screenWidth * i\<close>,
  and the content container is \<open>Metrics.screenWidth * stories.length\<close> wide, each
  product being the binary64 product. Where the products are exact (a positive width
  whose significand times the position stays below \<open>2 ^ 53\<close>, as for the width 390 at
  every position a list has), the offset is exactly \<open>i\<close> widths, item \<open>i + 1\<close> starts exactly where item
  \<open>i\<close> ends, and the content is exactly \<open>stories.length\<close> widths wide: each story
  group fills one page.
\<close>

theorem one_page_per_story_group_where_products_exact:
  assumes "MultiStoryContainer M T c = Some v"
  shows "fl_getItemLayout (modal_list v) i
           = \<lparr> layout_length = screenWidth M,
               layout_offset = dmul (screenWidth M) (double_of_nat i),
               layout_index = i \<rparr>
       \<and> fl_contentContainerStyle_width (modal_list v)
           = dmul (screenWidth M) (double_of_nat (length (stories c)))
       \<and> (0 < mant (screenWidth M) \<and> mant (screenWidth M) * int (Suc i) < 2 ^ 53 \<longrightarrow>
            dval (layout_offset (fl_getItemLayout (modal_list v) i))
              = dval (screenWidth M) * real i
            \<and> dval (layout_offset (fl_getItemLayout (modal_list v) (Suc i)))
              = dval (layout_offset (fl_getItemLayout (modal_list v) i))
                + dval (layout_length (fl_getItemLayout (modal_list v) i)))
       \<and> (0 < mant (screenWidth M)
            \<and> mant (screenWidth M) * int (length (stories c)) < 2 ^ 53 \<longrightarrow>
            dval (fl_contentContainerStyle_width (modal_list v))
              = dval (screenWidth M) * real (length (stories c)))"
proof -
  from assms have v: "fl_getItemLayout (modal_list v) = getItemLayout M"
      "fl_contentContainerStyle_width (modal_list v)
         = dmul (screenWidth M) (double_of_nat (length (stories c)))"
    by (auto simp: MultiStoryContainer_def split: if_splits)
  have pages: "dval (dmul (screenWidth M) (double_of_nat i)) = dval (screenWidth M) * real i
      \<and> dval (dmul (screenWidth M) (double_of_nat (Suc i)))
          = dval (dmul (screenWidth M) (double_of_nat i)) + dval (screenWidth M)"
    if pos: "0 < mant (screenWidth M)" and small: "mant (screenWidth M) * int (Suc i) < 2 ^ 53"
  proof -
    from pos have "mant (screenWidth M) * int i \<le> mant (screenWidth M) * int (Suc i)"
      by (intro mult_left_mono) simp_all
    with small have "mant (screenWidth M) * int i < 2 ^ 53" by linarith
    from dmul_position_exact(2) [OF pos this] dmul_position_exact(2) [OF pos small]
    show ?thesis by (simp add: algebra_simps)
  qed
  from v pages dmul_position_exact(2) [of "screenWidth M" "length (stories c)"]
  show ?thesis
    by (simp add: getItemLayout_def)
qed

theorem one_page_per_story_group_where_products_exact_witness:
  "(\<exists>v. MultiStoryContainer phone namedTransitions twoGroups = Some v
        \<and> 0 < mant (screenWidth phone)
        \<and> mant (screenWidth phone) * int (Suc 1) < 2 ^ 53
        \<and> mant (screenWidth phone) * int (length (stories twoGroups)) < 2 ^ 53
        \<and> layout_length (fl_getItemLayout (modal_list v) 1) = Double 390 0
        \<and> dval (layout_offset (fl_getItemLayout (modal_list v) 1)) = 390
        \<and> dval (layout_offset (fl_getItemLayout (modal_list v) (Suc 1))) = 780
        \<and> dval (fl_contentContainerStyle_width (modal_list v)) = 780)"
proof -
  obtain v where v: "MultiStoryContainer phone namedTransitions twoGroups = Some v"
    by (simp add: MultiStoryContainer_def twoGroups_def firstRender_def)
  have w: "dval (screenWidth phone) = 390"
    by (simp add: phone_def dval_def)
  have small: "0 < mant (screenWidth phone)"
    "mant (screenWidth phone) * int (Suc 1) < 2 ^ 53"
    "mant (screenWidth phone) * int (length (stories twoGroups)) < 2 ^ 53"
    by (simp_all add: phone_def twoGroups_def firstRender_def)
  note pages = one_page_per_story_group_where_products_exact [OF v, of 1]
  from pages have len: "layout_length (fl_getItemLayout (modal_list v) 1) = Double 390 0"
    by (simp add: phone_def)
  from pages small
  have off: "dval (layout_offset (fl_getItemLayout (modal_list v) 1))
      = dval (screenWidth phone) * real 1"
    and adj: "dval (layout_offset (fl_getItemLayout (modal_list v) (Suc 1)))
      = dval (layout_offset (fl_getItemLayout (modal_list v) 1))
        + dval (layout_length (fl_getItemLayout (modal_list v) 1))"
    and wid: "dval (fl_contentContainerStyle_width (modal_list v))
      = dval (screenWidth phone) * real (length (stories twoGroups))"
    by blast+
  from off w have off': "dval (layout_offset (fl_getItemLayout (modal_list v) 1)) = 390"
    by simp
  from adj off' len w
  have adj': "dval (layout_offset (fl_getItemLayout (modal_list v) (Suc 1))) = 780"
    by (simp add: dval_def)
  from wid w have wid': "dval (fl_contentContainerStyle_width (modal_list v)) = 780"
    by (simp add: twoGroups_def firstRender_def)
  from v small len off' adj' wid' show ?thesis by blast
qed

text \<open>
  C7 as stated fails at the width \<open>411.42857142857144\<close>: the products are rounded. The
  offset of item 3 is not three widths, item 3 does not start where item 2 ends, and the
  offset of item 6 (\<open>2468.5714285714284\<close>) is not the binary64 sum of the offset and the
  length of item 5 (\<open>2468.571428571429\<close>).
\<close>

lemma android_products:
  "dmul (Double 3618963986279863 (- 43)) (double_of_nat 2) = Double 7237927972559726 (- 43)"
  "dmul (Double 3618963986279863 (- 43)) (double_of_nat 3) = Double 5428445979419794 (- 42)"
  "dmul (Double 3618963986279863 (- 43)) (double_of_nat 5) = Double 4523704982849829 (- 41)"
  "dmul (Double 3618963986279863 (- 43)) (double_of_nat 6) = Double 5428445979419794 (- 41)"
  by code_simp+

lemma android_offsets:
  "layout_offset (getItemLayout android 2) = Double 7237927972559726 (- 43)"
  "layout_offset (getItemLayout android 3) = Double 5428445979419794 (- 42)"
  "layout_offset (getItemLayout android 5) = Double 4523704982849829 (- 41)"
  "layout_offset (getItemLayout android 6) = Double 5428445979419794 (- 41)"
  "layout_length (getItemLayout android 5) = Double 3618963986279863 (- 43)"
  "layout_length (getItemLayout android 2) = Double 3618963986279863 (- 43)"
  by (simp_all add: getItemLayout_def android_def android_products)

lemma android_offset_5_plus_length:
  "dadd (Double 4523704982849829 (- 41)) (Double 3618963986279863 (- 43))
     = Double 5428445979419795 (- 41)"
  by code_simp

theorem rounded_offsets_counterexample:
  "dval (layout_offset (getItemLayout android 3)) \<noteq> dval (screenWidth android) * 3
   \<and> dval (layout_offset (getItemLayout android 3))
       \<noteq> dval (layout_offset (getItemLayout android 2))
         + dval (layout_length (getItemLayout android 2))
   \<and> dval (layout_offset (getItemLayout android 6))
       \<noteq> dval (dadd (layout_offset (getItemLayout android 5))
                   (layout_length (getItemLayout android 5)))"
  by (simp add: android_offsets android_offset_5_plus_length)
     (simp add: dval_def android_def)

text \<open>
  C8. When the \<open>visible\<close> prop is false the component returns \<open>null\<close>: no modal, no
  list, no story content, and so no handler attached to any of them.
\<close>

theorem hidden_container_renders_nothing:
  "visible c = Some False \<Longrightarrow> MultiStoryContainer M T c = None"
  by (simp add: MultiStoryContainer_def)

theorem hidden_container_renders_nothing_witness:
  "visible (twoGroups\<lparr>visible := Some False\<rparr>) = Some False
   \<and> MultiStoryContainer phone namedTransitions (twoGroups\<lparr>visible := Some False\<rparr>) = None"
  using hidden_container_renders_nothing
          [of "twoGroups\<lparr>visible := Some False\<rparr>" phone namedTransitions]
  by simp

lemma shown_container_renders_modal:
  "visible c = Some True \<Longrightarrow>
     \<exists>v. MultiStoryContainer M T c = Some v \<and> modal_visible v
        \<and> fl_data (modal_list v) = stories c
        \<and> fl_renderItem (modal_list v) = renderItem T c"
  by (simp add: MultiStoryContainer_def)

section \<open>Reporting the current story group\<close>

text \<open>
  C9. The effect with the dependencies \<open>[onUserStoryIndexChange, storyIndex]\<close> calls
  the \<open>onUserStoryIndexChange\<close> callback, when one is supplied, with the current
  \<open>storyIndex\<close> on the first commit and on every commit whose \<open>storyIndex\<close> differs
  from that of the commit before; without a callback it calls nothing.
\<close>

theorem storyIndexEffect_reports_new_index:
  "(effectDeps c = None \<and> onUserStoryIndexChange c = Some f
      \<longrightarrow> snd (storyIndexEffect c) = [Call_onUserStoryIndexChange f (storyIndex c)])
   \<and> (effectDeps c = Some (cb, i) \<and> i \<noteq> storyIndex c \<and> onUserStoryIndexChange c = Some f
      \<longrightarrow> snd (storyIndexEffect c) = [Call_onUserStoryIndexChange f (storyIndex c)])
   \<and> (onUserStoryIndexChange c = None \<longrightarrow> snd (storyIndexEffect c) = [])"
  by (simp add: storyIndexEffect_def)

theorem storyIndexEffect_reports_new_index_witness:
  "snd (storyIndexEffect twoGroups) = [Call_onUserStoryIndexChange 8 0]
   \<and> snd (storyIndexEffect ((fst (storyIndexEffect twoGroups))\<lparr>storyIndex := 1\<rparr>))
       = [Call_onUserStoryIndexChange 8 1]
   \<and> snd (storyIndexEffect (twoGroups\<lparr>onUserStoryIndexChange := None\<rparr>)) = []"
  using storyIndexEffect_reports_new_index [of twoGroups 8 None 0]
        storyIndexEffect_reports_new_index
          [of "(fst (storyIndexEffect twoGroups))\<lparr>storyIndex := 1\<rparr>" 8 "Some 8" 0]
        storyIndexEffect_reports_new_index
          [of "twoGroups\<lparr>onUserStoryIndexChange := None\<rparr>" 8 None 0]
  by (simp add: storyIndexEffect_def twoGroups_def firstRender_def)

text \<open>
  Over a run of commits with one callback \<open>f\<close>, the calls made are the indices of the
  run with every repetition of the index before it left out: one call at the first
  commit, one at each change, none in between.
\<close>

lemma map_remdups_adj_Cons:
  "map F (remdups_adj (j # js)) = F j # map F (tl (remdups_adj (j # js)))"
  by (simp add: remdups_adj_Cons split: list.splits)

lemma commits_after_commit:
  "onUserStoryIndexChange c = Some f \<Longrightarrow> effectDeps c = Some (Some f, i0) \<Longrightarrow>
     commits c js = map (Call_onUserStoryIndexChange f) (tl (remdups_adj (i0 # js)))"
proof (induction js arbitrary: c i0)
  case Nil
  then show ?case by simp
next
  case (Cons j js)
  show ?case
  proof (cases "j = i0")
    case True
    with Cons.prems have step:
      "storyIndexEffect (c\<lparr>storyIndex := j\<rparr>) = (c\<lparr>storyIndex := j\<rparr>, [])"
      by (simp add: storyIndexEffect_def)
    from Cons.prems have "commits (c\<lparr>storyIndex := j\<rparr>) js
        = map (Call_onUserStoryIndexChange f) (tl (remdups_adj (i0 # js)))"
      by (intro Cons.IH) simp_all
    with step True show ?thesis by simp
  next
    case False
    let ?c' = "c\<lparr>storyIndex := j, effectDeps := Some (Some f, j)\<rparr>"
    from False Cons.prems have step: "storyIndexEffect (c\<lparr>storyIndex := j\<rparr>)
        = (?c', [Call_onUserStoryIndexChange f j])"
      by (simp add: storyIndexEffect_def)
    from Cons.prems have "commits ?c' js
        = map (Call_onUserStoryIndexChange f) (tl (remdups_adj (j # js)))"
      by (intro Cons.IH) simp_all
    with step False show ?thesis
      by (simp add: map_remdups_adj_Cons [of _ j js])
  qed
qed

lemma commits_from_first_render:
  "onUserStoryIndexChange c = Some f \<Longrightarrow> effectDeps c = None \<Longrightarrow>
     commits c js = map (Call_onUserStoryIndexChange f) (remdups_adj js)"
proof (cases js)
  case Nil
  then show ?thesis by simp
next
  case (Cons j js')
  assume f: "onUserStoryIndexChange c = Some f" and d: "effectDeps c = None"
  let ?c' = "c\<lparr>storyIndex := j, effectDeps := Some (Some f, j)\<rparr>"
  from f d have step: "storyIndexEffect (c\<lparr>storyIndex := j\<rparr>)
      = (?c', [Call_onUserStoryIndexChange f j])"
    by (simp add: storyIndexEffect_def)
  from f have "commits ?c' js'
      = map (Call_onUserStoryIndexChange f) (tl (remdups_adj (j # js')))"
    by (intro commits_after_commit) simp_all
  with step Cons show ?thesis
    by (simp add: map_remdups_adj_Cons [of _ j js'])
qed

lemma commits_sample:
  "commits twoGroups [0, 0, 1, 1, 0]
     = [Call_onUserStoryIndexChange 8 0, Call_onUserStoryIndexChange 8 1,
        Call_onUserStoryIndexChange 8 0]"
  by (simp add: storyIndexEffect_def twoGroups_def firstRender_def)

end
